theory Spec2Isabelle
  imports Main
begin

section \<open>Values and the token record\<close>

text \<open>
  Times are milliseconds since the epoch, as \<^verbatim>\<open>Date.now()\<close> returns them. Every call
  of \<^verbatim>\<open>Date.now()\<close> in the source is a separate reading of the clock, so every
  function below takes one time argument per call site it can reach.
\<close>

type_synonym millis = int

text \<open>
  A token record is the JSON object kept in \<^verbatim>\<open>tokens.json\<close>. Its four known
  properties are typed as the source's comment and the data model give them (strings
  and whole numbers); an absent property (\<^verbatim>\<open>undefined\<close>) is \<open>None\<close>. Any
  further property of the object is carried along in \<open>other\<close>.
\<close>

record token_record =
  access_token :: "string option"
  refresh_token :: "string option"
  expires_in :: "int option"
  expires_at :: "millis option"
  other :: "(string \<times> string) list"

text \<open>
  JavaScript truthiness of a property that holds a string or a number:
  \<^verbatim>\<open>undefined\<close>, the empty string and \<^verbatim>\<open>0\<close> are falsy.
\<close>

definition truthy_str :: "string option \<Rightarrow> bool" where
  "truthy_str v = (case v of None \<Rightarrow> False | Some s \<Rightarrow> s \<noteq> [])"

definition truthy_num :: "int option \<Rightarrow> bool" where
  "truthy_num v = (case v of None \<Rightarrow> False | Some n \<Rightarrow> n \<noteq> 0)"

text \<open>\<^verbatim>\<open>(x || 0)\<close> on a numeric property.\<close>

definition or_zero :: "int option \<Rightarrow> int" where
  "or_zero v = (case v of None \<Rightarrow> 0 | Some n \<Rightarrow> n)"

text \<open>
  The result of a subtraction whose left operand may be \<^verbatim>\<open>undefined\<close>:
  \<^verbatim>\<open>undefined - n\<close> is \<^verbatim>\<open>NaN\<close>.
\<close>

datatype jsnum = NaN | Num int

section \<open>The world: token file and network\<close>

text \<open>
  The token file either does not exist, holds text that \<^verbatim>\<open>JSON.parse\<close> rejects,
  holds the literal \<^verbatim>\<open>null\<close>, or holds an object.
\<close>

datatype token_file = NoFile | BadJson | JsonNull | JsonObject token_record

text \<open>
  The body of a POST to the token endpoint, by its varying part (client id, client
  secret and redirect URI are constants of the process): a refresh grant carries the
  refresh token it was called with (possibly \<^verbatim>\<open>undefined\<close>), a code grant the code.
\<close>

datatype token_request = RefreshGrant "string option" | CodeGrant string

text \<open>
  JSON values of request bodies and submitted payloads. Numbers are whole numbers.
\<close>

datatype json =
    JNull
  | JBool bool
  | JNum int
  | JStr string
  | JArr "json list"
  | JObj "(string \<times> json) list"

text \<open>
  A network call as the process issues it: a POST to the token endpoint, or a POST of a
  lead with the access token of its \<^verbatim>\<open>Authorization\<close> header.
\<close>

datatype http_call =
    PostTokens token_request
  | PostLeads "string option" json

text \<open>
  Why a call failed: axios rejects on a network error and on a status outside 2xx;
  a 2xx answer whose body is \<^verbatim>\<open>null\<close> makes the assignment to
  \<^verbatim>\<open>tokens.expires_at\<close> raise a TypeError.
\<close>

datatype cause = NetworkError string | BadStatus nat string | NullBody

text \<open>What the token endpoint answers to one request.\<close>

datatype token_reply = Rejected cause | ResolvedNull | Resolved token_record

text \<open>
  The errors the operations raise, named as the specification names them:
  \<open>Unauthorized\<close> is the Error "No tokens found...", \<open>MissingRefreshToken\<close> the
  Error "No refresh token available...", \<open>RefreshFailed\<close> what
  \<^verbatim>\<open>refreshAccessToken\<close> rethrows, \<open>CodeExchangeFailed\<close> what
  \<^verbatim>\<open>exchangeCodeForTokens\<close> lets through, \<open>SubmissionFailed\<close> a rejected
  POST of the lead.
\<close>

datatype error =
    Unauthorized
  | MissingRefreshToken
  | RefreshFailed cause
  | CodeExchangeFailed cause
  | SubmissionFailed cause

text \<open>
  The state the operations read and change: the token file, and the network calls
  issued so far, oldest first. Each operation runs to its end without another one in
  between, and a write of the file succeeds.
\<close>

record world =
  TOKEN_FILE :: token_file
  http_calls :: "http_call list"

section \<open>Token helpers\<close>

text \<open>
  \<^verbatim>\<open>loadTokens\<close>: \<^verbatim>\<open>null\<close> when the file is missing or unparseable (the
  exception is caught), otherwise what \<^verbatim>\<open>JSON.parse\<close> returns.
\<close>

definition loadTokens :: "world \<Rightarrow> token_record option" where
  "loadTokens w =
     (case TOKEN_FILE w of
        NoFile \<Rightarrow> None
      | BadJson \<Rightarrow> None
      | JsonNull \<Rightarrow> None
      | JsonObject tokens \<Rightarrow> Some tokens)"

text \<open>
  \<^verbatim>\<open>saveTokens\<close>, called with an object (so \<^verbatim>\<open>tokens &&\<close> holds): when
  \<^verbatim>\<open>tokens.expires_in\<close> is truthy the object's \<^verbatim>\<open>expires_at\<close> is overwritten, then
  the object is written to the file. The object is changed in place, so the caller
  sees the change: the changed object is returned with the new world.
\<close>

definition saveTokens :: "millis \<Rightarrow> token_record \<Rightarrow> world \<Rightarrow> token_record \<times> world" where
  "saveTokens now tokens w =
     (let tokens' =
            (if truthy_num (expires_in tokens)
             then tokens\<lparr>expires_at := Some (now + or_zero (expires_in tokens) * 1000)\<rparr>
             else tokens)
      in (tokens', w\<lparr>TOKEN_FILE := JsonObject tokens'\<rparr>))"

text \<open>
  \<^verbatim>\<open>exchangeCodeForTokens\<close>: no handler, so a rejected call leaves the function as
  it is. \<open>t_stamp\<close> is the clock at the assignment to \<^verbatim>\<open>tokens.expires_at\<close>,
  \<open>t_save\<close> the clock inside \<^verbatim>\<open>saveTokens\<close>.
\<close>

definition exchangeCodeForTokens ::
  "(token_request \<Rightarrow> token_reply) \<Rightarrow> millis \<Rightarrow> millis \<Rightarrow> string \<Rightarrow> world
     \<Rightarrow> (error + token_record) \<times> world" where
  "exchangeCodeForTokens auth t_stamp t_save code w =
     (let w1 = w\<lparr>http_calls := http_calls w @ [PostTokens (CodeGrant code)]\<rparr>
      in case auth (CodeGrant code) of
           Rejected c \<Rightarrow> (Inl (CodeExchangeFailed c), w1)
         | ResolvedNull \<Rightarrow> (Inl (CodeExchangeFailed NullBody), w1)
         | Resolved tokens \<Rightarrow>
             (case saveTokens t_save
                     (tokens\<lparr>expires_at := Some (t_stamp + or_zero (expires_in tokens) * 1000)\<rparr>) w1 of
                (tokens', w2) \<Rightarrow> (Inr tokens', w2)))"

text \<open>
  \<^verbatim>\<open>refreshAccessToken\<close>: the same with a refresh grant; the handler logs and
  rethrows.
\<close>

definition refreshAccessToken ::
  "(token_request \<Rightarrow> token_reply) \<Rightarrow> millis \<Rightarrow> millis \<Rightarrow> string option \<Rightarrow> world
     \<Rightarrow> (error + token_record) \<times> world" where
  "refreshAccessToken auth t_stamp t_save refreshToken w =
     (let w1 = w\<lparr>http_calls := http_calls w @ [PostTokens (RefreshGrant refreshToken)]\<rparr>
      in case auth (RefreshGrant refreshToken) of
           Rejected c \<Rightarrow> (Inl (RefreshFailed c), w1)
         | ResolvedNull \<Rightarrow> (Inl (RefreshFailed NullBody), w1)
         | Resolved tokens \<Rightarrow>
             (case saveTokens t_save
                     (tokens\<lparr>expires_at := Some (t_stamp + or_zero (expires_in tokens) * 1000)\<rparr>) w1 of
                (tokens', w2) \<Rightarrow> (Inr tokens', w2)))"

text \<open>
  The test of \<^verbatim>\<open>getValidAccessToken\<close> for a token near or past expiry:
  \<^verbatim>\<open>!tokens.expires_at || now >= tokens.expires_at - 2 * 60 * 1000\<close>.
\<close>

definition near_expiry :: "millis \<Rightarrow> token_record \<Rightarrow> bool" where
  "near_expiry now tokens =
     (\<not> truthy_num (expires_at tokens) \<or> now \<ge> or_zero (expires_at tokens) - 2 * 60 * 1000)"

text \<open>
  \<^verbatim>\<open>getValidAccessToken\<close>. The result is the \<^verbatim>\<open>access_token\<close> property of the
  record in hand, \<open>None\<close> when the record has none.
\<close>

definition getValidAccessToken ::
  "(token_request \<Rightarrow> token_reply) \<Rightarrow> millis \<Rightarrow> millis \<Rightarrow> millis \<Rightarrow> world
     \<Rightarrow> (error + string option) \<times> world" where
  "getValidAccessToken auth now t_stamp t_save w =
     (case loadTokens w of
        None \<Rightarrow> (Inl Unauthorized, w)
      | Some tokens \<Rightarrow>
          if near_expiry now tokens then
            if \<not> truthy_str (refresh_token tokens) then (Inl MissingRefreshToken, w)
            else
              (case refreshAccessToken auth t_stamp t_save (refresh_token tokens) w of
                 (Inl err, w') \<Rightarrow> (Inl err, w')
               | (Inr tokens', w') \<Rightarrow> (Inr (access_token tokens'), w'))
          else (Inr (access_token tokens), w))"

text \<open>
  \<^verbatim>\<open>backgroundRefresher\<close>, first the body of its \<^verbatim>\<open>try\<close>, then the function
  with the handler, which logs the error and returns.
\<close>

definition backgroundRefresher_try ::
  "(token_request \<Rightarrow> token_reply) \<Rightarrow> millis \<Rightarrow> millis \<Rightarrow> millis \<Rightarrow> world
     \<Rightarrow> (error + unit) \<times> world" where
  "backgroundRefresher_try auth now t_stamp t_save w =
     (case loadTokens w of
        None \<Rightarrow> (Inr (), w)
      | Some tokens \<Rightarrow>
          if \<not> truthy_num (expires_at tokens) then (Inr (), w)
          else
            (let msLeft = or_zero (expires_at tokens) - now
             in if msLeft < 12 * 60 * 60 * 1000 then
                  (case refreshAccessToken auth t_stamp t_save (refresh_token tokens) w of
                     (Inl err, w') \<Rightarrow> (Inl err, w')
                   | (Inr tokens', w') \<Rightarrow> (Inr (), w'))
                else (Inr (), w)))"

definition backgroundRefresher ::
  "(token_request \<Rightarrow> token_reply) \<Rightarrow> millis \<Rightarrow> millis \<Rightarrow> millis \<Rightarrow> world
     \<Rightarrow> (error + unit) \<times> world" where
  "backgroundRefresher auth now t_stamp t_save w =
     (case backgroundRefresher_try auth now t_stamp t_save w of
        (Inl err, w') \<Rightarrow> (Inr (), w')
      | (Inr u, w') \<Rightarrow> (Inr u, w'))"

section \<open>Routes\<close>

text \<open>
  The answer of \<^verbatim>\<open>GET /token-status\<close>. A property that the answer does not have is
  \<open>None\<close>; \<^verbatim>\<open>ms_until_expiry\<close> is \<^verbatim>\<open>tokens.expires_at - Date.now()\<close>, which is
  \<^verbatim>\<open>NaN\<close> when the record has no \<^verbatim>\<open>expires_at\<close>.
\<close>

record token_status =
  authorized :: bool
  status_expires_at :: "millis option"
  ms_until_expiry :: "jsnum option"
  has_refresh_token :: "bool option"

definition tokenStatus :: "millis \<Rightarrow> world \<Rightarrow> token_status" where
  "tokenStatus now w =
     (case loadTokens w of
        None \<Rightarrow>
          \<lparr>authorized = False, status_expires_at = None, ms_until_expiry = None,
           has_refresh_token = None\<rparr>
      | Some tokens \<Rightarrow>
          \<lparr>authorized = True,
           status_expires_at = expires_at tokens,
           ms_until_expiry =
             Some (case expires_at tokens of None \<Rightarrow> NaN | Some e \<Rightarrow> Num (e - now)),
           has_refresh_token = Some (truthy_str (refresh_token tokens))\<rparr>)"

text \<open>
  Truthiness of a property of a parsed JSON object (\<open>None\<close> is \<^verbatim>\<open>undefined\<close>), and
  \<^verbatim>\<open>v || d\<close> for a default \<open>d\<close>.
\<close>

fun truthy :: "json option \<Rightarrow> bool" where
  "truthy None = False"
| "truthy (Some JNull) = False"
| "truthy (Some (JBool b)) = b"
| "truthy (Some (JNum n)) = (n \<noteq> 0)"
| "truthy (Some (JStr s)) = (s \<noteq> [])"
| "truthy (Some (JArr xs)) = True"
| "truthy (Some (JObj ps)) = True"

definition js_or :: "json option \<Rightarrow> json \<Rightarrow> json" where
  "js_or v d = (case v of None \<Rightarrow> d | Some x \<Rightarrow> if truthy v then x else d)"

text \<open>
  A property of an object literal whose value may be \<^verbatim>\<open>undefined\<close>: the serialised
  object has the key only when the value is defined.
\<close>

definition property :: "string \<Rightarrow> json option \<Rightarrow> (string \<times> json) list" where
  "property k v = (case v of None \<Rightarrow> [] | Some x \<Rightarrow> [(k, x)])"

text \<open>The parsed body of \<^verbatim>\<open>POST /lead\<close>: its properties by name.\<close>

type_synonym lead_body = "string \<rightharpoonup> json"

text \<open>
  The payload that \<^verbatim>\<open>POST /lead\<close> builds from the body: the object literal, then the
  conditional assignment of \<^verbatim>\<open>custom_field_values\<close>.
\<close>

definition leadPayload :: "lead_body \<Rightarrow> json" where
  "leadPayload body =
     JObj
       (property ''first_name'' (body ''firstName'') @
        property ''last_name'' (body ''lastName'') @
        [(''email'', js_or (body ''email'') JNull),
         (''cell_phone_number'', js_or (body ''phone'') JNull),
         (''address'',
            JObj
              [(''address1'', js_or (body ''address1'') (JStr [])),
               (''address2'', js_or (body ''address2'') (JStr [])),
               (''city'', js_or (body ''city'') (JStr [])),
               (''state'', js_or (body ''state'') (JStr [])),
               (''zip_code'', js_or (body ''zip'') (JStr [])),
               (''country'', js_or (body ''country'') (JStr ''US''))]),
         (''lead_details'', js_or (body ''summary'') (JStr []))] @
        (if truthy (body ''typeOfClient'') \<and> truthy (body ''customFieldId'') then
           [(''custom_field_values'',
               JArr
                 [JObj
                    ((''custom_field'', JObj (property ''id'' (body ''customFieldId''))) #
                     property ''value'' (body ''typeOfClient''))])]
         else []))"

text \<open>What the leads endpoint answers, and what \<^verbatim>\<open>POST /lead\<close> answers.\<close>

datatype lead_reply = LeadRejected cause | LeadResolved json

datatype lead_response = Status400 | Status200 json | Status500 error

text \<open>
  \<^verbatim>\<open>POST /lead\<close>. \<open>req_body\<close> is \<^verbatim>\<open>req.body\<close>, \<open>None\<close> when the request had
  no parsed body.
\<close>

definition postLead ::
  "(token_request \<Rightarrow> token_reply) \<Rightarrow> (string option \<Rightarrow> json \<Rightarrow> lead_reply)
     \<Rightarrow> millis \<Rightarrow> millis \<Rightarrow> millis \<Rightarrow> lead_body option \<Rightarrow> world
     \<Rightarrow> lead_response \<times> world" where
  "postLead auth api now t_stamp t_save req_body w =
     (case req_body of
        None \<Rightarrow> (Status400, w)
      | Some body \<Rightarrow>
          if \<not> truthy (body ''firstName'') \<or> \<not> truthy (body ''lastName'') then (Status400, w)
          else
            (case getValidAccessToken auth now t_stamp t_save w of
               (Inl err, w1) \<Rightarrow> (Status500 err, w1)
             | (Inr accessToken, w1) \<Rightarrow>
                 (let payload = leadPayload body;
                      w2 = w1\<lparr>http_calls := http_calls w1 @ [PostLeads accessToken payload]\<rparr>
                  in case api accessToken payload of
                       LeadRejected c \<Rightarrow> (Status500 (SubmissionFailed c), w2)
                     | LeadResolved d \<Rightarrow> (Status200 d, w2))))"

text \<open>
  Reading a key of a JSON object: \<open>None\<close> when the value is no object or has no such key.
\<close>

definition field :: "json \<Rightarrow> string \<Rightarrow> json option" where
  "field j k = (case j of JObj ps \<Rightarrow> map_of ps k | _ \<Rightarrow> None)"

section \<open>Example inputs and statement predicates\<close>

text \<open>
  A predicate for stating that a payload field takes a body property when that is
  truthy and the default otherwise (when the property is undefined, and also when it
  is supplied with a falsy value: \<^verbatim>\<open>null\<close>, \<^verbatim>\<open>false\<close>, \<^verbatim>\<open>0\<close> or the empty
  string); and the concrete records, worlds, endpoints and bodies at which the
  properties below are instantiated.
\<close>

definition maps_with_default :: "lead_body \<Rightarrow> string \<Rightarrow> json \<Rightarrow> string \<Rightarrow> json \<Rightarrow> bool" where
  "maps_with_default body src obj dst d =
     ((\<not> truthy (body src) \<longrightarrow> field obj dst = Some d) \<and>
      (truthy (body src) \<longrightarrow> field obj dst = body src))"

definition example_tokens :: token_record where
  "example_tokens =
     \<lparr>access_token = Some ''at-1'', refresh_token = Some ''rt-1'',
      expires_in = Some 3600, expires_at = Some 3600000, other = []\<rparr>"

definition example_world :: world where
  "example_world = \<lparr>TOKEN_FILE = JsonObject example_tokens, http_calls = []\<rparr>"

definition example_fresh :: token_record where
  "example_fresh =
     \<lparr>access_token = Some ''at-2'', refresh_token = Some ''rt-2'',
      expires_in = Some 7200, expires_at = None, other = []\<rparr>"

definition auth_grants :: "token_request \<Rightarrow> token_reply" where
  "auth_grants req = Resolved example_fresh"

definition auth_refuses :: "token_request \<Rightarrow> token_reply" where
  "auth_refuses req = Rejected (BadStatus 400 ''invalid_grant'')"

definition example_tokens_no_refresh :: token_record where
  "example_tokens_no_refresh = example_tokens\<lparr>refresh_token := None\<rparr>"

definition example_world_no_refresh :: world where
  "example_world_no_refresh =
     \<lparr>TOKEN_FILE = JsonObject example_tokens_no_refresh, http_calls = []\<rparr>"

definition example_world_empty :: world where
  "example_world_empty = \<lparr>TOKEN_FILE = NoFile, http_calls = []\<rparr>"

definition example_tokens_no_access :: token_record where
  "example_tokens_no_access = example_tokens\<lparr>access_token := None\<rparr>"

definition example_world_no_access :: world where
  "example_world_no_access =
     \<lparr>TOKEN_FILE = JsonObject example_tokens_no_access, http_calls = []\<rparr>"

definition example_lead :: lead_body where
  "example_lead =
     [''firstName'' \<mapsto> JStr ''John'', ''lastName'' \<mapsto> JStr ''Doe'',
      ''email'' \<mapsto> JStr ''j@x.com'', ''typeOfClient'' \<mapsto> JStr ''Real Estate'']"

definition leads_accepts :: "string option \<Rightarrow> json \<Rightarrow> lead_reply" where
  "leads_accepts accessToken payload = LeadResolved JNull"

definition example_lead_custom :: lead_body where
  "example_lead_custom =
     example_lead(''customFieldId'' \<mapsto> JNum 12345, ''phone'' \<mapsto> JStr [],
       ''country'' \<mapsto> JStr [], ''city'' \<mapsto> JStr ''Austin'')"

definition world_expiring_at :: "millis \<Rightarrow> world" where
  "world_expiring_at e =
     \<lparr>TOKEN_FILE = JsonObject (example_tokens\<lparr>expires_at := Some e\<rparr>), http_calls = []\<rparr>"

definition example_fresh_no_lifetime :: token_record where
  "example_fresh_no_lifetime = example_fresh\<lparr>expires_in := None\<rparr>"

definition auth_grants_no_lifetime :: "token_request \<Rightarrow> token_reply" where
  "auth_grants_no_lifetime req = Resolved example_fresh_no_lifetime"

section \<open>Properties\<close>

text \<open>
  C1. A stored record whose \<^verbatim>\<open>expires_at\<close> lies more than 120000 ms after the current
  time (a clock reading, so not negative) makes \<^verbatim>\<open>getValidAccessToken\<close> return the
  stored \<^verbatim>\<open>access_token\<close> and leave the world as it was: no network call is added and
  the file is not written.
\<close>

theorem getValidAccessToken_fresh:
  assumes "loadTokens w = Some tokens"
    and "expires_at tokens = Some e"
    and "now + 120000 < e"
    and "0 \<le> now"
  shows "getValidAccessToken auth now t_stamp t_save w = (Inr (access_token tokens), w)"
  using assms
  by (simp add: getValidAccessToken_def near_expiry_def truthy_num_def or_zero_def)

text \<open>The stored token expires at 3600000 and the time is 1000.\<close>

theorem getValidAccessToken_fresh_witness:
  "loadTokens example_world = Some example_tokens
   \<and> expires_at example_tokens = Some 3600000
   \<and> (1000::int) + 120000 < 3600000 \<and> (0::int) \<le> 1000
   \<and> getValidAccessToken auth_refuses 1000 1001 1002 example_world
       = (Inr (Some ''at-1''), example_world)"
proof -
  have l: "loadTokens example_world = Some example_tokens"
    by (simp add: loadTokens_def example_world_def)
  have e: "expires_at example_tokens = Some 3600000"
    by (simp add: example_tokens_def)
  have "getValidAccessToken auth_refuses 1000 1001 1002 example_world
          = (Inr (access_token example_tokens), example_world)"
    by (rule getValidAccessToken_fresh [OF l e]) simp_all
  then show ?thesis
    using l e by (simp add: example_tokens_def)
qed

text \<open>
  C2. A stored record whose \<^verbatim>\<open>expires_at\<close> is absent, or with
  \<open>now \<ge> expires_at - 120000\<close>, and which has a refresh token (a non-empty string,
  what the test \<^verbatim>\<open>!tokens.refresh_token\<close> lets through), makes
  \<^verbatim>\<open>getValidAccessToken\<close> issue exactly one call, the refresh grant with that token;
  and when the endpoint answers with a record, the file holds that record with its
  \<^verbatim>\<open>expires_at\<close> computed, and the result is the new \<^verbatim>\<open>access_token\<close>.
\<close>

theorem getValidAccessToken_refreshes:
  assumes "loadTokens w = Some tokens"
    and "expires_at tokens = None \<or> (\<exists>e. expires_at tokens = Some e \<and> now \<ge> e - 120000)"
    and "refresh_token tokens = Some rt"
    and "rt \<noteq> []"
  shows "http_calls (snd (getValidAccessToken auth now t_stamp t_save w))
           = http_calls w @ [PostTokens (RefreshGrant (Some rt))]
         \<and> (\<forall>fresh. auth (RefreshGrant (Some rt)) = Resolved fresh \<longrightarrow>
              (\<exists>stored.
                 getValidAccessToken auth now t_stamp t_save w
                   = (Inr (access_token fresh),
                      \<lparr>TOKEN_FILE = JsonObject stored,
                       http_calls = http_calls w @ [PostTokens (RefreshGrant (Some rt))]\<rparr>)
                 \<and> stored = fresh\<lparr>expires_at :=
                      Some (if truthy_num (expires_in fresh)
                            then t_save + or_zero (expires_in fresh) * 1000
                            else t_stamp)\<rparr>))"
proof -
  have near: "near_expiry now tokens"
    using assms(2) by (auto simp: near_expiry_def truthy_num_def or_zero_def)
  have rt: "truthy_str (refresh_token tokens)"
    using assms(3,4) by (simp add: truthy_str_def)
  show ?thesis
    using assms(1,3) near rt
    by (cases "auth (RefreshGrant (Some rt))")
       (auto simp: getValidAccessToken_def refreshAccessToken_def saveTokens_def Let_def
          or_zero_def truthy_num_def split: option.splits)
qed

text \<open>
  The stored token expires at 3600000, the time is 3480000 (exactly two minutes before),
  and the endpoint grants a token that lives 7200 seconds.
\<close>

theorem getValidAccessToken_refreshes_witness:
  "loadTokens example_world = Some example_tokens
   \<and> (\<exists>e. expires_at example_tokens = Some e \<and> (3480000::int) \<ge> e - 120000)
   \<and> refresh_token example_tokens = Some ''rt-1''
   \<and> auth_grants (RefreshGrant (Some ''rt-1'')) = Resolved example_fresh
   \<and> getValidAccessToken auth_grants 3480000 3480500 3480501 example_world
       = (Inr (Some ''at-2''),
          \<lparr>TOKEN_FILE = JsonObject (example_fresh\<lparr>expires_at := Some 10680501\<rparr>),
           http_calls = [PostTokens (RefreshGrant (Some ''rt-1''))]\<rparr>)"
proof -
  have l: "loadTokens example_world = Some example_tokens"
    by (simp add: loadTokens_def example_world_def)
  have e: "expires_at example_tokens = None
           \<or> (\<exists>e. expires_at example_tokens = Some e \<and> (3480000::int) \<ge> e - 120000)"
    by (simp add: example_tokens_def)
  have r: "refresh_token example_tokens = Some ''rt-1''"
    by (simp add: example_tokens_def)
  have a: "auth_grants (RefreshGrant (Some ''rt-1'')) = Resolved example_fresh"
    by (simp add: auth_grants_def)
  have n: "''rt-1'' \<noteq> []" by simp
  from getValidAccessToken_refreshes [OF l e r n, of auth_grants 3480500 3480501] a
  have "getValidAccessToken auth_grants 3480000 3480500 3480501 example_world
          = (Inr (access_token example_fresh),
             \<lparr>TOKEN_FILE = JsonObject (example_fresh\<lparr>expires_at :=
                 Some (if truthy_num (expires_in example_fresh)
                       then 3480501 + or_zero (expires_in example_fresh) * 1000
                       else 3480500)\<rparr>),
              http_calls = http_calls example_world @ [PostTokens (RefreshGrant (Some ''rt-1''))]\<rparr>)"
    by blast
  then show ?thesis
    using l r a
    by (simp add: example_tokens_def example_fresh_def example_world_def truthy_num_def or_zero_def)
qed

text \<open>
  C3. When the token endpoint rejects the refresh call (network error or a status
  outside 2xx) with cause \<open>c\<close>, \<^verbatim>\<open>refreshAccessToken\<close> fails with
  \<open>RefreshFailed c\<close> and the file is as before; \<^verbatim>\<open>getValidAccessToken\<close>, when it
  was the caller, fails with the same error and the file is as before.
\<close>

theorem refresh_failure_keeps_record:
  assumes "auth (RefreshGrant rt) = Rejected c"
  shows "fst (refreshAccessToken auth t_stamp t_save rt w) = Inl (RefreshFailed c)
         \<and> TOKEN_FILE (snd (refreshAccessToken auth t_stamp t_save rt w)) = TOKEN_FILE w
         \<and> (loadTokens w = Some tokens \<and> near_expiry now tokens
              \<and> truthy_str (refresh_token tokens) \<and> refresh_token tokens = rt \<longrightarrow>
            fst (getValidAccessToken auth now t_stamp t_save w) = Inl (RefreshFailed c)
            \<and> TOKEN_FILE (snd (getValidAccessToken auth now t_stamp t_save w)) = TOKEN_FILE w)"
  using assms
  by (auto simp: refreshAccessToken_def getValidAccessToken_def Let_def)

text \<open>The endpoint answers 400 at the moment the stored token expires.\<close>

theorem refresh_failure_keeps_record_witness:
  "auth_refuses (RefreshGrant (Some ''rt-1'')) = Rejected (BadStatus 400 ''invalid_grant'')
   \<and> loadTokens example_world = Some example_tokens
   \<and> near_expiry 3600000 example_tokens
   \<and> truthy_str (refresh_token example_tokens)
   \<and> refresh_token example_tokens = Some ''rt-1''
   \<and> fst (refreshAccessToken auth_refuses 3600001 3600002 (Some ''rt-1'') example_world)
       = Inl (RefreshFailed (BadStatus 400 ''invalid_grant''))
   \<and> fst (getValidAccessToken auth_refuses 3600000 3600001 3600002 example_world)
       = Inl (RefreshFailed (BadStatus 400 ''invalid_grant''))
   \<and> TOKEN_FILE (snd (getValidAccessToken auth_refuses 3600000 3600001 3600002 example_world))
       = JsonObject example_tokens"
proof -
  have a: "auth_refuses (RefreshGrant (Some ''rt-1'')) = Rejected (BadStatus 400 ''invalid_grant'')"
    by (simp add: auth_refuses_def)
  have h: "loadTokens example_world = Some example_tokens
           \<and> near_expiry 3600000 example_tokens
           \<and> truthy_str (refresh_token example_tokens)
           \<and> refresh_token example_tokens = Some ''rt-1''"
    by (simp add: loadTokens_def example_world_def example_tokens_def near_expiry_def
          truthy_num_def truthy_str_def or_zero_def)
  from refresh_failure_keeps_record
         [where auth = auth_refuses and rt = "Some ''rt-1''" and t_stamp = 3600001
            and t_save = 3600002 and w = example_world and tokens = example_tokens
            and now = 3600000, OF a] h a
  show ?thesis
    by (simp add: example_world_def truthy_str_def)
qed

text \<open>
  C4. \<^verbatim>\<open>getValidAccessToken\<close> fails with \<open>Unauthorized\<close> when no record is loaded,
  and with \<open>MissingRefreshToken\<close> when the loaded record is near or past expiry (or
  has no \<^verbatim>\<open>expires_at\<close>) and has no refresh token (none, or the empty string); in
  both cases the world is as before: no call, no write.
\<close>

theorem getValidAccessToken_failures:
  "(loadTokens w = None \<longrightarrow>
      getValidAccessToken auth now t_stamp t_save w = (Inl Unauthorized, w))
   \<and> (loadTokens w = Some tokens
        \<and> (expires_at tokens = None \<or> (\<exists>e. expires_at tokens = Some e \<and> now \<ge> e - 120000))
        \<and> (refresh_token tokens = None \<or> refresh_token tokens = Some []) \<longrightarrow>
      getValidAccessToken auth now t_stamp t_save w = (Inl MissingRefreshToken, w))"
  by (auto simp: getValidAccessToken_def near_expiry_def truthy_num_def truthy_str_def or_zero_def
        split: option.splits)

text \<open>No file at all; and a record without refresh token, past its expiry.\<close>

theorem getValidAccessToken_failures_witness:
  "loadTokens example_world_empty = None
   \<and> getValidAccessToken auth_grants 1000 1001 1002 example_world_empty
       = (Inl Unauthorized, example_world_empty)
   \<and> loadTokens example_world_no_refresh = Some example_tokens_no_refresh
   \<and> (\<exists>e. expires_at example_tokens_no_refresh = Some e \<and> (3700000::int) \<ge> e - 120000)
   \<and> refresh_token example_tokens_no_refresh = None
   \<and> getValidAccessToken auth_grants 3700000 3700001 3700002 example_world_no_refresh
       = (Inl MissingRefreshToken, example_world_no_refresh)"
proof -
  have l0: "loadTokens example_world_empty = None"
    by (simp add: loadTokens_def example_world_empty_def)
  have l1: "loadTokens example_world_no_refresh = Some example_tokens_no_refresh"
    by (simp add: loadTokens_def example_world_no_refresh_def)
  have e: "\<exists>e. expires_at example_tokens_no_refresh = Some e \<and> (3700000::int) \<ge> e - 120000"
    by (simp add: example_tokens_no_refresh_def example_tokens_def)
  have r: "refresh_token example_tokens_no_refresh = None"
    by (simp add: example_tokens_no_refresh_def)
  from getValidAccessToken_failures [of example_world_empty auth_grants 1000 1001 1002] l0
  have u: "getValidAccessToken auth_grants 1000 1001 1002 example_world_empty
             = (Inl Unauthorized, example_world_empty)"
    by blast
  from getValidAccessToken_failures
         [of example_world_no_refresh auth_grants 3700000 3700001 3700002 example_tokens_no_refresh]
       l1 e r
  have m: "getValidAccessToken auth_grants 3700000 3700001 3700002 example_world_no_refresh
             = (Inl MissingRefreshToken, example_world_no_refresh)"
    by blast
  from l0 u l1 e r m show ?thesis by blast
qed

text \<open>
  C5, as stated, fails: a stored record without \<^verbatim>\<open>access_token\<close> is reported as
  authorized, where the absent record is not, and \<^verbatim>\<open>getValidAccessToken\<close> returns
  normally (with an undefined token), where the absent record raises \<open>Unauthorized\<close>.
\<close>

theorem no_access_token_counterexample:
  "access_token example_tokens_no_access = None
   \<and> loadTokens example_world_no_access = Some example_tokens_no_access
   \<and> loadTokens example_world_empty = None
   \<and> authorized (tokenStatus 1000 example_world_no_access) = True
   \<and> authorized (tokenStatus 1000 example_world_empty) = False
   \<and> fst (getValidAccessToken auth_grants 1000 1001 1002 example_world_no_access) = Inr None
   \<and> fst (getValidAccessToken auth_grants 1000 1001 1002 example_world_empty) = Inl Unauthorized"
  by (simp add: example_tokens_no_access_def example_world_no_access_def example_world_empty_def
        example_tokens_def tokenStatus_def loadTokens_def getValidAccessToken_def near_expiry_def
        truthy_num_def or_zero_def)

text \<open>
  C5, amended. The \<^verbatim>\<open>authorized\<close> field of \<^verbatim>\<open>/token-status\<close> is true exactly
  when a record is loaded, whatever its \<^verbatim>\<open>access_token\<close>; and
  \<^verbatim>\<open>getValidAccessToken\<close> fails with \<open>Unauthorized\<close> exactly when no record is
  loaded.
\<close>

theorem authorized_iff_record_loaded:
  "authorized (tokenStatus now w) = (loadTokens w \<noteq> None)
   \<and> (fst (getValidAccessToken auth now t_stamp t_save w) = Inl Unauthorized)
       = (loadTokens w = None)"
proof -
  have s: "authorized (tokenStatus now w) = (loadTokens w \<noteq> None)"
    by (simp add: tokenStatus_def split: option.splits)
  have g: "(fst (getValidAccessToken auth now t_stamp t_save w) = Inl Unauthorized)
             = (loadTokens w = None)"
    by (cases "auth (RefreshGrant (refresh_token (the (loadTokens w))))")
       (auto simp: getValidAccessToken_def refreshAccessToken_def saveTokens_def Let_def
          split: option.splits)
  from s g show ?thesis by simp
qed

lemma js_or_truthy: "truthy v \<Longrightarrow> Some (js_or v d) = v"
  by (cases v) (simp_all add: js_or_def)

lemma truthy_defined: "truthy v \<Longrightarrow> v \<noteq> None"
  by (cases v) simp_all

lemma js_or_falsy: "\<not> truthy v \<Longrightarrow> js_or v d = d"
  by (cases v) (simp_all add: js_or_def)

text \<open>
  C6. For a body whose \<^verbatim>\<open>firstName\<close> and \<^verbatim>\<open>lastName\<close> are truthy, once
  \<^verbatim>\<open>getValidAccessToken\<close> has returned a token, \<^verbatim>\<open>POST /lead\<close> issues one more
  call, the POST of \<open>leadPayload body\<close> with that token. In the payload
  \<^verbatim>\<open>first_name\<close> and \<^verbatim>\<open>last_name\<close> are the body's names; \<^verbatim>\<open>email\<close> and
  \<^verbatim>\<open>cell_phone_number\<close> are the body's \<^verbatim>\<open>email\<close> and \<^verbatim>\<open>phone\<close> when
  truthy and \<^verbatim>\<open>null\<close> otherwise; \<^verbatim>\<open>address\<close> is an object whose six fields are
  the body's when truthy and otherwise the empty string, \<^verbatim>\<open>"US"\<close> for the country;
  \<^verbatim>\<open>lead_details\<close> is the body's \<^verbatim>\<open>summary\<close> when truthy and otherwise the
  empty string. "Otherwise" is every other body: the property undefined, or supplied
  as \<^verbatim>\<open>null\<close>, \<^verbatim>\<open>false\<close>, \<^verbatim>\<open>0\<close> or the empty string. The key
  \<^verbatim>\<open>custom_field_values\<close> is there exactly when \<^verbatim>\<open>typeOfClient\<close> and
  \<^verbatim>\<open>customFieldId\<close> are both truthy, so only when both are supplied, and not when
  \<^verbatim>\<open>customFieldId\<close> is missing; when it is there, it is the one-element array
  pairing the field id with the type of client.
\<close>

theorem lead_payload_mapping:
  assumes "truthy (body ''firstName'')"
    and "truthy (body ''lastName'')"
    and "getValidAccessToken auth now t_stamp t_save w = (Inr accessToken, w1)"
  shows "http_calls (snd (postLead auth api now t_stamp t_save (Some body) w))
           = http_calls w1 @ [PostLeads accessToken (leadPayload body)]
         \<and> field (leadPayload body) ''first_name'' = body ''firstName''
         \<and> field (leadPayload body) ''last_name'' = body ''lastName''
         \<and> maps_with_default body ''email'' (leadPayload body) ''email'' JNull
         \<and> maps_with_default body ''phone'' (leadPayload body) ''cell_phone_number'' JNull
         \<and> (\<exists>a. field (leadPayload body) ''address'' = Some a
                \<and> maps_with_default body ''address1'' a ''address1'' (JStr [])
                \<and> maps_with_default body ''address2'' a ''address2'' (JStr [])
                \<and> maps_with_default body ''city'' a ''city'' (JStr [])
                \<and> maps_with_default body ''state'' a ''state'' (JStr [])
                \<and> maps_with_default body ''zip'' a ''zip_code'' (JStr [])
                \<and> maps_with_default body ''country'' a ''country'' (JStr ''US''))
         \<and> maps_with_default body ''summary'' (leadPayload body) ''lead_details'' (JStr [])
         \<and> (field (leadPayload body) ''custom_field_values'' \<noteq> None)
             = (truthy (body ''typeOfClient'') \<and> truthy (body ''customFieldId''))
         \<and> (field (leadPayload body) ''custom_field_values'' \<noteq> None \<longrightarrow>
              body ''typeOfClient'' \<noteq> None \<and> body ''customFieldId'' \<noteq> None)
         \<and> (body ''customFieldId'' = None \<longrightarrow>
              field (leadPayload body) ''custom_field_values'' = None)
         \<and> (truthy (body ''typeOfClient'') \<and> truthy (body ''customFieldId'')
              \<and> body ''typeOfClient'' = Some tc \<and> body ''customFieldId'' = Some cf \<longrightarrow>
              field (leadPayload body) ''custom_field_values''
                = Some (JArr [JObj [(''custom_field'', JObj [(''id'', cf)]), (''value'', tc)]]))"
proof -
  obtain f l where f: "body ''firstName'' = Some f" and l: "body ''lastName'' = Some l"
    using assms(1,2) by (cases "body ''firstName''"; cases "body ''lastName''") auto
  have sent: "http_calls (snd (postLead auth api now t_stamp t_save (Some body) w))
                = http_calls w1 @ [PostLeads accessToken (leadPayload body)]"
    using assms by (simp add: postLead_def Let_def split: lead_reply.splits)
  have names: "field (leadPayload body) ''first_name'' = body ''firstName''
               \<and> field (leadPayload body) ''last_name'' = body ''lastName''"
    by (simp add: leadPayload_def field_def property_def f l)
  have top: "maps_with_default body ''email'' (leadPayload body) ''email'' JNull
             \<and> maps_with_default body ''phone'' (leadPayload body) ''cell_phone_number'' JNull
             \<and> maps_with_default body ''summary'' (leadPayload body) ''lead_details'' (JStr [])"
    by (auto simp: maps_with_default_def leadPayload_def field_def property_def js_or_truthy
          js_or_falsy f l)
  have addr: "\<exists>a. field (leadPayload body) ''address'' = Some a
                \<and> maps_with_default body ''address1'' a ''address1'' (JStr [])
                \<and> maps_with_default body ''address2'' a ''address2'' (JStr [])
                \<and> maps_with_default body ''city'' a ''city'' (JStr [])
                \<and> maps_with_default body ''state'' a ''state'' (JStr [])
                \<and> maps_with_default body ''zip'' a ''zip_code'' (JStr [])
                \<and> maps_with_default body ''country'' a ''country'' (JStr ''US'')"
    by (auto simp: maps_with_default_def leadPayload_def field_def property_def js_or_truthy
          js_or_falsy f l)
  have cfv: "(field (leadPayload body) ''custom_field_values'' \<noteq> None)
               = (truthy (body ''typeOfClient'') \<and> truthy (body ''customFieldId''))"
    by (simp add: leadPayload_def field_def property_def f l)
  have supplied: "field (leadPayload body) ''custom_field_values'' \<noteq> None \<longrightarrow>
                    body ''typeOfClient'' \<noteq> None \<and> body ''customFieldId'' \<noteq> None"
    using cfv truthy_defined by blast
  have alone: "body ''customFieldId'' = None \<longrightarrow>
                 field (leadPayload body) ''custom_field_values'' = None"
    using cfv truthy_defined by blast
  have val: "truthy (body ''typeOfClient'') \<and> truthy (body ''customFieldId'')
              \<and> body ''typeOfClient'' = Some tc \<and> body ''customFieldId'' = Some cf \<longrightarrow>
              field (leadPayload body) ''custom_field_values''
                = Some (JArr [JObj [(''custom_field'', JObj [(''id'', cf)]), (''value'', tc)]])"
    by (auto simp: leadPayload_def field_def property_def f l)
  from sent names top addr cfv supplied alone val show ?thesis by blast
qed

text \<open>
  John Doe with an email and a type of client but no custom field id, sent with the
  stored token; and the same body with the custom field id 12345, the city Austin, and
  an empty string for the phone and for the country.
\<close>

theorem lead_payload_mapping_witness:
  "truthy (example_lead ''firstName'') \<and> truthy (example_lead ''lastName'')
   \<and> getValidAccessToken auth_refuses 1000 1001 1002 example_world
       = (Inr (Some ''at-1''), example_world)
   \<and> http_calls (snd (postLead auth_refuses leads_accepts 1000 1001 1002 (Some example_lead)
                        example_world))
       = [PostLeads (Some ''at-1'') (leadPayload example_lead)]
   \<and> field (leadPayload example_lead) ''first_name'' = Some (JStr ''John'')
   \<and> field (leadPayload example_lead) ''last_name'' = Some (JStr ''Doe'')
   \<and> field (leadPayload example_lead) ''email'' = Some (JStr ''j@x.com'')
   \<and> field (leadPayload example_lead) ''cell_phone_number'' = Some JNull
   \<and> field (leadPayload example_lead) ''lead_details'' = Some (JStr [])
   \<and> truthy (example_lead ''typeOfClient'') \<and> example_lead ''customFieldId'' = None
   \<and> field (leadPayload example_lead) ''custom_field_values'' = None
   \<and> truthy (example_lead_custom ''typeOfClient'')
   \<and> truthy (example_lead_custom ''customFieldId'')
   \<and> field (leadPayload example_lead_custom) ''custom_field_values''
       = Some (JArr [JObj [(''custom_field'', JObj [(''id'', JNum 12345)]),
                           (''value'', JStr ''Real Estate'')]])
   \<and> example_lead_custom ''phone'' = Some (JStr [])
   \<and> field (leadPayload example_lead_custom) ''cell_phone_number'' = Some JNull
   \<and> example_lead_custom ''country'' = Some (JStr [])
   \<and> (\<exists>a. field (leadPayload example_lead_custom) ''address'' = Some a
          \<and> field a ''country'' = Some (JStr ''US'')
          \<and> field a ''city'' = Some (JStr ''Austin'')
          \<and> field a ''state'' = Some (JStr []))"
proof -
  have f: "truthy (example_lead ''firstName'')" and l: "truthy (example_lead ''lastName'')"
    by (simp_all add: example_lead_def)
  have f': "truthy (example_lead_custom ''firstName'')"
    and l': "truthy (example_lead_custom ''lastName'')"
    by (simp_all add: example_lead_custom_def example_lead_def)
  have g: "getValidAccessToken auth_refuses 1000 1001 1002 example_world
             = (Inr (Some ''at-1''), example_world)"
    by (simp add: getValidAccessToken_def loadTokens_def near_expiry_def truthy_num_def
          or_zero_def example_world_def example_tokens_def)
  have b: "example_lead ''email'' = Some (JStr ''j@x.com'') \<and> example_lead ''phone'' = None
           \<and> example_lead ''summary'' = None \<and> example_lead ''customFieldId'' = None
           \<and> example_lead ''firstName'' = Some (JStr ''John'')
           \<and> example_lead ''lastName'' = Some (JStr ''Doe'')
           \<and> truthy (example_lead ''typeOfClient'')"
    by (simp add: example_lead_def)
  have b': "truthy (example_lead_custom ''typeOfClient'')
            \<and> truthy (example_lead_custom ''customFieldId'')
            \<and> example_lead_custom ''typeOfClient'' = Some (JStr ''Real Estate'')
            \<and> example_lead_custom ''customFieldId'' = Some (JNum 12345)
            \<and> example_lead_custom ''phone'' = Some (JStr [])
            \<and> example_lead_custom ''country'' = Some (JStr [])
            \<and> example_lead_custom ''city'' = Some (JStr ''Austin'')
            \<and> example_lead_custom ''state'' = None"
    by (simp add: example_lead_custom_def example_lead_def)
  from lead_payload_mapping [OF f l g, of leads_accepts] b
  have one: "http_calls (snd (postLead auth_refuses leads_accepts 1000 1001 1002
                                (Some example_lead) example_world))
               = [PostLeads (Some ''at-1'') (leadPayload example_lead)]
             \<and> field (leadPayload example_lead) ''first_name'' = Some (JStr ''John'')
             \<and> field (leadPayload example_lead) ''last_name'' = Some (JStr ''Doe'')
             \<and> field (leadPayload example_lead) ''email'' = Some (JStr ''j@x.com'')
             \<and> field (leadPayload example_lead) ''cell_phone_number'' = Some JNull
             \<and> field (leadPayload example_lead) ''lead_details'' = Some (JStr [])
             \<and> field (leadPayload example_lead) ''custom_field_values'' = None"
    by (simp add: maps_with_default_def example_world_def)
  from lead_payload_mapping
         [OF f' l' g, of leads_accepts "JStr ''Real Estate''" "JNum 12345"] b'
  have two: "field (leadPayload example_lead_custom) ''custom_field_values''
               = Some (JArr [JObj [(''custom_field'', JObj [(''id'', JNum 12345)]),
                                   (''value'', JStr ''Real Estate'')]])
             \<and> field (leadPayload example_lead_custom) ''cell_phone_number'' = Some JNull
             \<and> (\<exists>a. field (leadPayload example_lead_custom) ''address'' = Some a
                    \<and> field a ''country'' = Some (JStr ''US'')
                    \<and> field a ''city'' = Some (JStr ''Austin'')
                    \<and> field a ''state'' = Some (JStr []))"
    by (auto simp: maps_with_default_def)
  from f l g b b' one two show ?thesis by simp
qed

text \<open>
  C7. One run of \<^verbatim>\<open>backgroundRefresher\<close> changes nothing when no record is loaded or
  the record has no \<^verbatim>\<open>expires_at\<close> (none, or \<^verbatim>\<open>0\<close>, which the test
  \<^verbatim>\<open>!tokens.expires_at\<close> takes for none). With an \<^verbatim>\<open>expires_at\<close> it issues
  exactly one call, the refresh grant with the record's refresh token, when
  \<open>expires_at - now\<close> is below 12 hours (43200000 ms), and changes nothing otherwise.
\<close>

theorem backgroundRefresher_tick:
  "(loadTokens w = None
      \<or> (\<exists>t. loadTokens w = Some t \<and> (expires_at t = None \<or> expires_at t = Some 0)) \<longrightarrow>
    backgroundRefresher auth now t_stamp t_save w = (Inr (), w))
   \<and> (loadTokens w = Some tokens \<and> expires_at tokens = Some e \<and> e \<noteq> 0 \<longrightarrow>
        (if e - now < 43200000
         then http_calls (snd (backgroundRefresher auth now t_stamp t_save w))
                = http_calls w @ [PostTokens (RefreshGrant (refresh_token tokens))]
         else backgroundRefresher auth now t_stamp t_save w = (Inr (), w)))"
proof -
  have idle: "loadTokens w = None
      \<or> (\<exists>t. loadTokens w = Some t \<and> (expires_at t = None \<or> expires_at t = Some 0)) \<longrightarrow>
    backgroundRefresher auth now t_stamp t_save w = (Inr (), w)"
    by (auto simp: backgroundRefresher_def backgroundRefresher_try_def truthy_num_def)
  have live: "loadTokens w = Some tokens \<and> expires_at tokens = Some e \<and> e \<noteq> 0 \<longrightarrow>
        (if e - now < 43200000
         then http_calls (snd (backgroundRefresher auth now t_stamp t_save w))
                = http_calls w @ [PostTokens (RefreshGrant (refresh_token tokens))]
         else backgroundRefresher auth now t_stamp t_save w = (Inr (), w))"
    by (cases "auth (RefreshGrant (refresh_token tokens))")
       (auto simp: backgroundRefresher_def backgroundRefresher_try_def refreshAccessToken_def
          saveTokens_def truthy_num_def or_zero_def Let_def)
  from idle live show ?thesis by blast
qed

text \<open>
  At time 1000000: no file; a token with 11 hours (39600000 ms) left; a token with
  13 hours (46800000 ms) left.
\<close>

theorem backgroundRefresher_tick_witness:
  "loadTokens example_world_empty = None
   \<and> backgroundRefresher auth_grants 1000000 1000001 1000002 example_world_empty
       = (Inr (), example_world_empty)
   \<and> loadTokens (world_expiring_at 40600000) = Some (example_tokens\<lparr>expires_at := Some 40600000\<rparr>)
   \<and> (40600000::int) - 1000000 = 39600000
   \<and> http_calls (snd (backgroundRefresher auth_grants 1000000 1000001 1000002
                        (world_expiring_at 40600000)))
       = [PostTokens (RefreshGrant (Some ''rt-1''))]
   \<and> loadTokens (world_expiring_at 47800000) = Some (example_tokens\<lparr>expires_at := Some 47800000\<rparr>)
   \<and> (47800000::int) - 1000000 = 46800000
   \<and> backgroundRefresher auth_grants 1000000 1000001 1000002 (world_expiring_at 47800000)
       = (Inr (), world_expiring_at 47800000)"
proof -
  have l0: "loadTokens example_world_empty = None"
    by (simp add: loadTokens_def example_world_empty_def)
  have l1: "loadTokens (world_expiring_at 40600000)
              = Some (example_tokens\<lparr>expires_at := Some 40600000\<rparr>)"
    by (simp add: loadTokens_def world_expiring_at_def)
  have l2: "loadTokens (world_expiring_at 47800000)
              = Some (example_tokens\<lparr>expires_at := Some 47800000\<rparr>)"
    by (simp add: loadTokens_def world_expiring_at_def)
  from backgroundRefresher_tick [of example_world_empty auth_grants 1000000 1000001 1000002] l0
  have a: "backgroundRefresher auth_grants 1000000 1000001 1000002 example_world_empty
             = (Inr (), example_world_empty)"
    by blast
  from backgroundRefresher_tick
         [of "world_expiring_at 40600000" auth_grants 1000000 1000001 1000002
             "example_tokens\<lparr>expires_at := Some 40600000\<rparr>" 40600000] l1
  have b: "http_calls (snd (backgroundRefresher auth_grants 1000000 1000001 1000002
                              (world_expiring_at 40600000)))
             = [PostTokens (RefreshGrant (Some ''rt-1''))]"
    by (simp add: world_expiring_at_def example_tokens_def)
  from backgroundRefresher_tick
         [of "world_expiring_at 47800000" auth_grants 1000000 1000001 1000002
             "example_tokens\<lparr>expires_at := Some 47800000\<rparr>" 47800000] l2
  have c: "backgroundRefresher auth_grants 1000000 1000001 1000002 (world_expiring_at 47800000)
             = (Inr (), world_expiring_at 47800000)"
    by simp
  from l0 a l1 b l2 c show ?thesis by simp
qed

text \<open>
  C9. With a record that has an \<^verbatim>\<open>expires_at\<close>, less than 12 hours left and no
  refresh token, one run of \<^verbatim>\<open>backgroundRefresher\<close> still issues the refresh call,
  with an undefined refresh token, and returns normally; when the endpoint rejects that
  call, the body of the \<^verbatim>\<open>try\<close> raises \<open>RefreshFailed\<close>, the handler absorbs it,
  and the file is as before.
\<close>

theorem backgroundRefresher_without_refresh_token:
  assumes "loadTokens w = Some tokens"
    and "expires_at tokens = Some e"
    and "e \<noteq> 0"
    and "e - now < 43200000"
    and "refresh_token tokens = None"
  shows "http_calls (snd (backgroundRefresher auth now t_stamp t_save w))
           = http_calls w @ [PostTokens (RefreshGrant None)]
         \<and> fst (backgroundRefresher auth now t_stamp t_save w) = Inr ()
         \<and> (auth (RefreshGrant None) = Rejected c \<longrightarrow>
              fst (backgroundRefresher_try auth now t_stamp t_save w) = Inl (RefreshFailed c)
              \<and> TOKEN_FILE (snd (backgroundRefresher auth now t_stamp t_save w)) = TOKEN_FILE w)"
  using assms
  by (cases "auth (RefreshGrant None)")
     (auto simp: backgroundRefresher_def backgroundRefresher_try_def refreshAccessToken_def
        saveTokens_def truthy_num_def or_zero_def Let_def)

text \<open>A record without refresh token, one hour before its expiry; the endpoint answers 400.\<close>

theorem backgroundRefresher_without_refresh_token_witness:
  "loadTokens example_world_no_refresh = Some example_tokens_no_refresh
   \<and> expires_at example_tokens_no_refresh = Some 3600000
   \<and> (3600000::int) \<noteq> 0 \<and> (3600000::int) - 1000 < 43200000
   \<and> refresh_token example_tokens_no_refresh = None
   \<and> auth_refuses (RefreshGrant None) = Rejected (BadStatus 400 ''invalid_grant'')
   \<and> backgroundRefresher auth_refuses 1000 1001 1002 example_world_no_refresh
       = (Inr (),
          \<lparr>TOKEN_FILE = JsonObject example_tokens_no_refresh,
           http_calls = [PostTokens (RefreshGrant None)]\<rparr>)
   \<and> fst (backgroundRefresher_try auth_refuses 1000 1001 1002 example_world_no_refresh)
       = Inl (RefreshFailed (BadStatus 400 ''invalid_grant''))"
proof -
  have l: "loadTokens example_world_no_refresh = Some example_tokens_no_refresh"
    by (simp add: loadTokens_def example_world_no_refresh_def)
  have e: "expires_at example_tokens_no_refresh = Some 3600000"
    by (simp add: example_tokens_no_refresh_def example_tokens_def)
  have r: "refresh_token example_tokens_no_refresh = None"
    by (simp add: example_tokens_no_refresh_def)
  have a: "auth_refuses (RefreshGrant None) = Rejected (BadStatus 400 ''invalid_grant'')"
    by (simp add: auth_refuses_def)
  have n: "(3600000::int) \<noteq> 0" and m: "(3600000::int) - 1000 < 43200000"
    by simp_all
  from backgroundRefresher_without_refresh_token
         [OF l e n m r, of auth_refuses 1001 1002 "BadStatus 400 ''invalid_grant''"] a
  have k: "http_calls (snd (backgroundRefresher auth_refuses 1000 1001 1002 example_world_no_refresh))
             = http_calls example_world_no_refresh @ [PostTokens (RefreshGrant None)]
           \<and> fst (backgroundRefresher auth_refuses 1000 1001 1002 example_world_no_refresh) = Inr ()
           \<and> fst (backgroundRefresher_try auth_refuses 1000 1001 1002 example_world_no_refresh)
               = Inl (RefreshFailed (BadStatus 400 ''invalid_grant''))
           \<and> TOKEN_FILE (snd (backgroundRefresher auth_refuses 1000 1001 1002 example_world_no_refresh))
               = TOKEN_FILE example_world_no_refresh"
    by blast
  obtain x y where xy: "backgroundRefresher auth_refuses 1000 1001 1002 example_world_no_refresh = (x, y)"
    by (cases "backgroundRefresher auth_refuses 1000 1001 1002 example_world_no_refresh")
  from k xy have "x = Inr ()
      \<and> y = \<lparr>TOKEN_FILE = JsonObject example_tokens_no_refresh,
              http_calls = [PostTokens (RefreshGrant None)]\<rparr>"
    by (cases y) (simp add: example_world_no_refresh_def)
  with xy k l e r a show ?thesis by simp
qed

text \<open>
  C10. When the token endpoint grants a record without \<^verbatim>\<open>expires_in\<close>, to a refresh
  or to a code exchange, the record written to the file has \<^verbatim>\<open>expires_at\<close> set to the
  clock reading of the assignment (\<open>t_stamp + 0\<close>), not absent. At any later time
  such a record is near or past expiry for \<^verbatim>\<open>getValidAccessToken\<close>, which then does
  not hand out the stored token: it fails with \<open>MissingRefreshToken\<close> or issues a
  refresh call.
\<close>

theorem missing_expires_in_expires_now:
  assumes "expires_in fresh = None"
    and "stored = fresh\<lparr>expires_at := Some t_stamp\<rparr>"
  shows "(auth (RefreshGrant rt) = Resolved fresh \<longrightarrow>
            refreshAccessToken auth t_stamp t_save rt w
              = (Inr stored,
                 \<lparr>TOKEN_FILE = JsonObject stored,
                  http_calls = http_calls w @ [PostTokens (RefreshGrant rt)]\<rparr>))
         \<and> (auth (CodeGrant code) = Resolved fresh \<longrightarrow>
            exchangeCodeForTokens auth t_stamp t_save code w
              = (Inr stored,
                 \<lparr>TOKEN_FILE = JsonObject stored,
                  http_calls = http_calls w @ [PostTokens (CodeGrant code)]\<rparr>))
         \<and> expires_at stored = Some t_stamp
         \<and> (t_stamp \<le> now' \<longrightarrow> near_expiry now' stored)
         \<and> (t_stamp \<le> now' \<and> loadTokens w' = Some stored \<longrightarrow>
              getValidAccessToken auth' now' t_stamp' t_save' w' = (Inl MissingRefreshToken, w')
              \<or> http_calls (snd (getValidAccessToken auth' now' t_stamp' t_save' w'))
                   = http_calls w' @ [PostTokens (RefreshGrant (refresh_token fresh))])"
proof -
  have r: "auth (RefreshGrant rt) = Resolved fresh \<longrightarrow>
            refreshAccessToken auth t_stamp t_save rt w
              = (Inr stored,
                 \<lparr>TOKEN_FILE = JsonObject stored,
                  http_calls = http_calls w @ [PostTokens (RefreshGrant rt)]\<rparr>)"
    using assms
    by (simp add: refreshAccessToken_def saveTokens_def truthy_num_def or_zero_def Let_def)
  have x: "auth (CodeGrant code) = Resolved fresh \<longrightarrow>
            exchangeCodeForTokens auth t_stamp t_save code w
              = (Inr stored,
                 \<lparr>TOKEN_FILE = JsonObject stored,
                  http_calls = http_calls w @ [PostTokens (CodeGrant code)]\<rparr>)"
    using assms
    by (simp add: exchangeCodeForTokens_def saveTokens_def truthy_num_def or_zero_def Let_def)
  have e: "expires_at stored = Some t_stamp"
    using assms(2) by simp
  have n: "t_stamp \<le> now' \<longrightarrow> near_expiry now' stored"
    using e by (simp add: near_expiry_def or_zero_def)
  have g: "t_stamp \<le> now' \<and> loadTokens w' = Some stored \<longrightarrow>
              getValidAccessToken auth' now' t_stamp' t_save' w' = (Inl MissingRefreshToken, w')
              \<or> http_calls (snd (getValidAccessToken auth' now' t_stamp' t_save' w'))
                   = http_calls w' @ [PostTokens (RefreshGrant (refresh_token fresh))]"
    using n assms(2)
    by (cases "auth' (RefreshGrant (refresh_token fresh))")
       (auto simp: getValidAccessToken_def refreshAccessToken_def saveTokens_def Let_def)
  from r x e n g show ?thesis by blast
qed

text \<open>
  A grant without \<^verbatim>\<open>expires_in\<close>, stamped at 5000 and saved at 5001; the next
  request comes at 6000.
\<close>

theorem missing_expires_in_expires_now_witness:
  "expires_in example_fresh_no_lifetime = None
   \<and> auth_grants_no_lifetime (RefreshGrant (Some ''rt-1'')) = Resolved example_fresh_no_lifetime
   \<and> auth_grants_no_lifetime (CodeGrant ''code-1'') = Resolved example_fresh_no_lifetime
   \<and> TOKEN_FILE (snd (refreshAccessToken auth_grants_no_lifetime 5000 5001 (Some ''rt-1'')
                        example_world))
       = JsonObject (example_fresh_no_lifetime\<lparr>expires_at := Some 5000\<rparr>)
   \<and> TOKEN_FILE (snd (exchangeCodeForTokens auth_grants_no_lifetime 5000 5001 ''code-1''
                        example_world_empty))
       = JsonObject (example_fresh_no_lifetime\<lparr>expires_at := Some 5000\<rparr>)
   \<and> (5000::int) \<le> 6000
   \<and> near_expiry 6000 (example_fresh_no_lifetime\<lparr>expires_at := Some 5000\<rparr>)
   \<and> http_calls (snd (getValidAccessToken auth_grants_no_lifetime 6000 6001 6002
         (snd (refreshAccessToken auth_grants_no_lifetime 5000 5001 (Some ''rt-1'') example_world))))
       = [PostTokens (RefreshGrant (Some ''rt-1'')), PostTokens (RefreshGrant (Some ''rt-2''))]"
proof -
  let ?stored = "example_fresh_no_lifetime\<lparr>expires_at := Some 5000\<rparr>"
  let ?w' = "snd (refreshAccessToken auth_grants_no_lifetime 5000 5001 (Some ''rt-1'') example_world)"
  have i: "expires_in example_fresh_no_lifetime = None"
    by (simp add: example_fresh_no_lifetime_def)
  have a: "auth_grants_no_lifetime (RefreshGrant (Some ''rt-1'')) = Resolved example_fresh_no_lifetime"
    and c: "auth_grants_no_lifetime (CodeGrant ''code-1'') = Resolved example_fresh_no_lifetime"
    by (simp_all add: auth_grants_no_lifetime_def)
  note main = missing_expires_in_expires_now [OF i refl,
      where auth = auth_grants_no_lifetime and t_stamp = 5000 and t_save = 5001
        and rt = "Some ''rt-1''" and code = "''code-1''" and now' = 6000
        and auth' = auth_grants_no_lifetime and t_stamp' = 6001 and t_save' = 6002]
  from main [of example_world ?w'] a
  have w': "?w' = \<lparr>TOKEN_FILE = JsonObject ?stored,
                   http_calls = http_calls example_world @ [PostTokens (RefreshGrant (Some ''rt-1''))]\<rparr>"
    by simp
  from main [of example_world_empty ?w'] c
  have x: "TOKEN_FILE (snd (exchangeCodeForTokens auth_grants_no_lifetime 5000 5001 ''code-1''
                              example_world_empty))
             = JsonObject ?stored"
    by simp
  have l: "loadTokens ?w' = Some ?stored"
    by (simp add: w' loadTokens_def)
  from main [of example_world ?w'] l
  have n: "near_expiry 6000 ?stored"
    and g: "getValidAccessToken auth_grants_no_lifetime 6000 6001 6002 ?w' = (Inl MissingRefreshToken, ?w')
            \<or> http_calls (snd (getValidAccessToken auth_grants_no_lifetime 6000 6001 6002 ?w'))
                 = http_calls ?w' @ [PostTokens (RefreshGrant (refresh_token example_fresh_no_lifetime))]"
    by simp_all
  have ne: "getValidAccessToken auth_grants_no_lifetime 6000 6001 6002 ?w' \<noteq> (Inl MissingRefreshToken, ?w')"
    using l n
    by (simp add: getValidAccessToken_def truthy_str_def example_fresh_no_lifetime_def
          example_fresh_def refreshAccessToken_def auth_grants_no_lifetime_def Let_def
          split: prod.splits)
  have hc: "http_calls ?w' = [PostTokens (RefreshGrant (Some ''rt-1''))]"
    by (subst w') (simp add: example_world_def)
  from g ne hc
  have h: "http_calls (snd (getValidAccessToken auth_grants_no_lifetime 6000 6001 6002 ?w'))
             = [PostTokens (RefreshGrant (Some ''rt-1'')), PostTokens (RefreshGrant (Some ''rt-2''))]"
    by (simp add: example_fresh_no_lifetime_def example_fresh_def)
  from i a c w' x n h show ?thesis by simp
qed

text \<open>
  C8. \<^verbatim>\<open>saveTokens\<close> is idempotent at a fixed instant: a second call at the same
  \<open>now\<close>, on the record as the first call left it or on the record as it was given,
  stores the same file content (so the same \<^verbatim>\<open>expires_at\<close>) as the first call.
\<close>

theorem saveTokens_idempotent:
  "saveTokens now (fst (saveTokens now tokens w)) (snd (saveTokens now tokens w))
     = saveTokens now tokens w
   \<and> TOKEN_FILE (snd (saveTokens now tokens (snd (saveTokens now tokens w))))
     = TOKEN_FILE (snd (saveTokens now tokens w))"
  by (simp add: saveTokens_def Let_def)

end
